theory Spec2Isabelle
  imports Main
begin

section \<open>Memory Leak Detector GUI: a shallow embedding of valgrindGUI_windows.py\<close>

text \<open>
  The program is a Tk front end that probes for GCC and Valgrind (natively and inside WSL),
  compiles a C file and runs Valgrind on the result. Its logic is string handling plus the
  orchestration of external processes. The embedding keeps both:
  \<^item> Python \<open>str\<close> is \<open>string\<close>. The character classes the code consults (\<open>lower\<close>,
    \<open>strip\<close>) are modelled on ASCII; the few non-ASCII glyphs of the user interface are
    written as their UTF-8 bytes.
  \<^item> The object \<open>self\<close> is the record \<open>gui\<close>. The text widget is the list of the chunks
    inserted at its end, in order; message boxes and spawned processes are recorded in
    two more lists, so that "no process was spawned" is a statement about the state.
  \<^item> The operating system is the record \<open>world\<close>: what \<open>subprocess.run\<close> answers for an
    invocation, \<open>os.path.exists\<close>, \<open>os.path.basename\<close> and \<open>platform.system()\<close>.
  \<^item> An exception is a value of \<open>exn\<close>; a function that can raise returns a \<open>result\<close>
    together with the state reached when it returned or raised.
\<close>

subsection \<open>Python string operations\<close>

text \<open>\<open>s.startswith(p)\<close>\<close>

fun starts_with :: "string \<Rightarrow> string \<Rightarrow> bool" where
  "starts_with [] s = True"
| "starts_with (p # ps) [] = False"
| "starts_with (p # ps) (c # cs) = (p = c \<and> starts_with ps cs)"

text \<open>\<open>s.endswith(p)\<close>\<close>

definition endswith :: "string \<Rightarrow> string \<Rightarrow> bool" where
  "endswith s p = starts_with (rev p) (rev s)"

text \<open>\<open>sub in s\<close> for strings: \<open>sub\<close> occurs at some position of \<open>s\<close>.\<close>

fun str_contains :: "string \<Rightarrow> string \<Rightarrow> bool" where
  "str_contains sub [] = (sub = [])"
| "str_contains sub (c # cs) = (starts_with sub (c # cs) \<or> str_contains sub cs)"

text \<open>\<open>s.replace(a, b)\<close> for single characters.\<close>

definition replace_char :: "char \<Rightarrow> char \<Rightarrow> string \<Rightarrow> string" where
  "replace_char a b s = map (\<lambda>c. if c = a then b else c) s"

text \<open>\<open>c.lower()\<close> on an ASCII character.\<close>

definition lower_char :: "char \<Rightarrow> char" where
  "lower_char c =
     (case map_of (zip ''ABCDEFGHIJKLMNOPQRSTUVWXYZ'' ''abcdefghijklmnopqrstuvwxyz'') c of
        Some d \<Rightarrow> d
      | None \<Rightarrow> c)"

text \<open>The ASCII characters for which \<open>str.isspace\<close> holds: 9 to 13, 28 to 32.\<close>

definition is_space :: "char \<Rightarrow> bool" where
  "is_space c \<longleftrightarrow>
     c \<in> set [CHR 0x09, CHR 0x0A, CHR 0x0B, CHR 0x0C, CHR 0x0D,
              CHR 0x1C, CHR 0x1D, CHR 0x1E, CHR 0x1F, CHR 0x20]"

text \<open>\<open>s.strip()\<close>\<close>

definition strip :: "string \<Rightarrow> string" where
  "strip s = rev (dropWhile is_space (rev (dropWhile is_space s)))"

text \<open>\<open>s.split(d)\<close> for a single-character separator: never the empty list.\<close>

fun split_char :: "char \<Rightarrow> string \<Rightarrow> string list" where
  "split_char d [] = [[]]"
| "split_char d (c # cs) =
     (if c = d then [] # split_char d cs
      else (case split_char d cs of
              [] \<Rightarrow> [[c]]
            | x # xs \<Rightarrow> (c # x) # xs))"

text \<open>
  \<open>match.group().split(':')[1].strip()\<close>. Index 1 exists whenever the text has a colon,
  which every match of the five leak patterns has (lemma \<open>re_search_has_colon\<close> and
  \<open>split_char_two\<close> below), so the \<open>IndexError\<close> of the source cannot arise there; the
  remaining case is given the empty string.
\<close>

definition second_field :: "string \<Rightarrow> string" where
  "second_field g = (case split_char CHR '':'' g of a # b # rest \<Rightarrow> strip b | _ \<Rightarrow> [])"

text \<open>\<open>str(n)\<close> for an integer.\<close>

definition digit_char :: "nat \<Rightarrow> char" where
  "digit_char d = ''0123456789'' ! d"

fun string_of_nat :: "nat \<Rightarrow> string" where
  "string_of_nat n =
     (if n < 10 then [digit_char n]
      else string_of_nat (n div 10) @ [digit_char (n mod 10)])"

declare string_of_nat.simps [simp del]

definition string_of_int :: "int \<Rightarrow> string" where
  "string_of_int i = (if i < 0 then ''-'' @ string_of_nat (nat (- i)) else string_of_nat (nat i))"

subsection \<open>Regular expressions of the shape \<open>pre.*suf\<close>\<close>

text \<open>
  Every pattern the program hands to \<open>re.search\<close> is a literal, \<open>.*\<close>, and a literal.
  \<open>.\<close> matches any character but the newline and \<open>*\<close> is greedy, giving way one
  character at a time; \<open>re.search\<close> returns the match at the leftmost position that has
  one. \<open>dotstar_then suf r\<close> matches \<open>.*suf\<close> at the start of \<open>r\<close> and returns the text
  matched: it first lets \<open>.\<close> take the next character and only then tries \<open>suf\<close> here.
\<close>

fun dotstar_then :: "string \<Rightarrow> string \<Rightarrow> string option" where
  "dotstar_then suf [] = (if suf = [] then Some [] else None)"
| "dotstar_then suf (c # cs) =
     (if c = CHR 0x0A
      then (if starts_with suf (c # cs) then Some suf else None)
      else (case dotstar_then suf cs of
              Some m \<Rightarrow> Some (c # m)
            | None \<Rightarrow> (if starts_with suf (c # cs) then Some suf else None)))"

definition match_at :: "string \<Rightarrow> string \<Rightarrow> string \<Rightarrow> string option" where
  "match_at pre suf s =
     (if starts_with pre s
      then map_option (\<lambda>m. pre @ m) (dotstar_then suf (drop (length pre) s))
      else None)"

text \<open>\<open>re.search(pre + ".*" + suf, s)\<close>; the result is \<open>match.group()\<close>.\<close>

fun re_search :: "string \<Rightarrow> string \<Rightarrow> string \<Rightarrow> string option" where
  "re_search pre suf [] = match_at pre suf []"
| "re_search pre suf (c # cs) =
     (case match_at pre suf (c # cs) of
        Some m \<Rightarrow> Some m
      | None \<Rightarrow> re_search pre suf cs)"

subsection \<open>The operating system and the application state\<close>

datatype exn = FileNotFoundError string | TimeoutExpired string | OtherException string

text \<open>\<open>str(e)\<close>\<close>

fun str_exn :: "exn \<Rightarrow> string" where
  "str_exn (FileNotFoundError m) = m"
| "str_exn (TimeoutExpired m) = m"
| "str_exn (OtherException m) = m"

text \<open>What \<open>subprocess.run\<close> gives: a completed process, or an exception.\<close>

datatype run_result =
    Completed (returncode: int) (stdout: string) (stderr: string)
  | Raised exn

text \<open>An invocation: the argument list, the \<open>shell\<close> flag and the timeout in seconds.\<close>

type_synonym invocation = "string list \<times> bool \<times> nat"

record world =
  run :: "invocation \<Rightarrow> run_result"
  path_exists :: "string \<Rightarrow> bool"
  basename :: "string \<Rightarrow> string"
  platform_system :: string

datatype dialog = ShowError string string | ShowInfo string string

record gui =
  wsl_available :: bool
  wsl_gcc_available :: bool
  wsl_valgrind_available :: bool
  process_entry :: string
  status_var :: string
  text_area :: "string list"
  dialogs :: "dialog list"
  spawned :: "invocation list"

datatype 'a result = Return 'a | Raise exn

text \<open>\<open>self.text_area.insert(tk.END, x)\<close>\<close>

definition insert_end :: "gui \<Rightarrow> string \<Rightarrow> gui" where
  "insert_end self x = self\<lparr>text_area := text_area self @ [x]\<rparr>"

text \<open>\<open>self.status_var.set(x)\<close>\<close>

definition set_status :: "gui \<Rightarrow> string \<Rightarrow> gui" where
  "set_status self x = self\<lparr>status_var := x\<rparr>"

text \<open>\<open>self.process_entry.delete(0, tk.END); self.process_entry.insert(0, x)\<close>\<close>

definition set_entry :: "gui \<Rightarrow> string \<Rightarrow> gui" where
  "set_entry self x = self\<lparr>process_entry := x\<rparr>"

text \<open>\<open>messagebox.showerror\<close> and \<open>messagebox.showinfo\<close>\<close>

definition messagebox :: "gui \<Rightarrow> dialog \<Rightarrow> gui" where
  "messagebox self d = self\<lparr>dialogs := dialogs self @ [d]\<rparr>"

text \<open>\<open>subprocess.run(cmd, capture_output=True, text=True, shell=.., timeout=..)\<close>\<close>

definition subprocess_run :: "world \<Rightarrow> gui \<Rightarrow> invocation \<Rightarrow> run_result \<times> gui" where
  "subprocess_run w self call = (run w call, self\<lparr>spawned := spawned self @ [call]\<rparr>)"

text \<open>The chunks an operation added to the text widget.\<close>

definition emitted :: "gui \<Rightarrow> gui \<Rightarrow> string list" where
  "emitted before after = drop (length (text_area before)) (text_area after)"

text \<open>The glyphs of the user interface, in UTF-8.\<close>

definition check_mark :: string where
  "check_mark = [CHR 0xE2, CHR 0x9C, CHR 0x93]"

definition cross_mark :: string where
  "cross_mark = [CHR 0xE2, CHR 0x9C, CHR 0x97]"

definition warning_sign :: string where
  "warning_sign = [CHR 0xE2, CHR 0x9A, CHR 0xA0]"

definition memo_sign :: string where
  "memo_sign = [CHR 0xF0, CHR 0x9F, CHR 0x93, CHR 0x9D]"

text \<open>\<open>"=" * 50\<close>, \<open>"-" * 50\<close>, \<open>"!" * 50\<close>\<close>

definition rule50 :: "char \<Rightarrow> string" where
  "rule50 c = replicate 50 c"

subsection \<open>Path translation\<close>

text \<open>
  \<open>_windows_path_to_wsl\<close>: every backslash becomes a slash; then, if the path has a colon
  anywhere, its first character, lowercased, follows \<open>/mnt/\<close>, and the first two
  characters are dropped. A path with a colon is not empty, so \<open>wsl_path[0]\<close> exists.
\<close>

definition windows_path_to_wsl :: "string \<Rightarrow> string" where
  "windows_path_to_wsl windows_path =
     (let wsl_path = replace_char (CHR 0x5C) CHR ''/'' windows_path
      in if CHR '':'' \<in> set wsl_path
         then (case wsl_path of
                 [] \<Rightarrow> wsl_path
               | c # cs \<Rightarrow> ''/mnt/'' @ [lower_char c] @ drop 2 wsl_path)
         else wsl_path)"

text \<open>The letters a drive can be named with.\<close>

definition ascii_letters :: string where
  "ascii_letters = ''ABCDEFGHIJKLMNOPQRSTUVWXYZabcdefghijklmnopqrstuvwxyz''"

subsection \<open>The parser of Valgrind's output\<close>

definition no_leak_phrase :: string where
  "no_leak_phrase = ''All heap blocks were freed -- no leaks are possible''"

definition no_leak_result :: string where
  "no_leak_result = ''\<newline>'' @ check_mark @ '' RESULT: No memory leaks detected!\<newline>\<newline>''"

definition leak_result :: string where
  "leak_result = ''\<newline>'' @ warning_sign @ '' RESULT: Memory leaks detected!\<newline>\<newline>''"

text \<open>The check for memory leaks.\<close>

definition emit_verdict :: "gui \<Rightarrow> string \<Rightarrow> gui" where
  "emit_verdict self valgrind_stderr =
     (if str_contains no_leak_phrase valgrind_stderr
      then insert_end self no_leak_result
      else insert_end self leak_result)"

text \<open>The memory usage summary.\<close>

definition emit_memory_usage :: "gui \<Rightarrow> string \<Rightarrow> gui" where
  "emit_memory_usage self valgrind_stderr =
     (case re_search ''total heap usage: '' '' bytes allocated'' valgrind_stderr of
        Some g \<Rightarrow> insert_end self (''Memory usage: '' @ g @ ''\<newline>'')
      | None \<Rightarrow> self)"

text \<open>The five leak patterns, each \<open>(literal before .*, literal after .*)\<close>, and their labels.\<close>

definition leak_patterns :: "((string \<times> string) \<times> string) list" where
  "leak_patterns =
     [((''definitely lost: '', '' blocks''), ''Definitely lost''),
      ((''indirectly lost: '', '' blocks''), ''Indirectly lost''),
      ((''possibly lost: '', '' blocks''), ''Possibly lost''),
      ((''still reachable: '', '' blocks''), ''Still reachable''),
      ((''suppressed: '', '' blocks''), ''Suppressed'')]"

text \<open>The line of one category: \<open>f"  {label}: {match.group().split(':')[1].strip()}\n"\<close>\<close>

definition leak_line :: "string \<Rightarrow> string \<Rightarrow> string" where
  "leak_line label g = ''  '' @ label @ '': '' @ second_field g @ ''\<newline>''"

text \<open>The loop over the patterns.\<close>

fun emit_leak_lines :: "gui \<Rightarrow> string \<Rightarrow> ((string \<times> string) \<times> string) list \<Rightarrow> gui" where
  "emit_leak_lines self valgrind_stderr [] = self"
| "emit_leak_lines self valgrind_stderr ((pattern, label) # rest) =
     (case re_search (fst pattern) (snd pattern) valgrind_stderr of
        Some g \<Rightarrow> emit_leak_lines (insert_end self (leak_line label g)) valgrind_stderr rest
      | None \<Rightarrow> emit_leak_lines self valgrind_stderr rest)"

definition table_header :: "string list" where
  "table_header =
     [''\<newline>'' @ rule50 CHR ''-'' @ ''\<newline>'',
      ''Leak Summary:\<newline>'',
      rule50 CHR ''-'' @ ''\<newline>'']"

text \<open>The leak summary.\<close>

definition emit_leak_summary :: "gui \<Rightarrow> string \<Rightarrow> gui" where
  "emit_leak_summary self valgrind_stderr =
     (if str_contains ''LEAK SUMMARY'' valgrind_stderr
      then emit_leak_lines
             (insert_end
               (insert_end
                 (insert_end self (''\<newline>'' @ rule50 CHR ''-'' @ ''\<newline>''))
                 ''Leak Summary:\<newline>'')
               (rule50 CHR ''-'' @ ''\<newline>''))
             valgrind_stderr leak_patterns
      else self)"

text \<open>The full output.\<close>

definition emit_full_output :: "gui \<Rightarrow> string \<Rightarrow> gui" where
  "emit_full_output self valgrind_stderr =
     insert_end
       (insert_end
         (insert_end
           (insert_end self (''\<newline>'' @ rule50 CHR ''='' @ ''\<newline>''))
           ''Full Valgrind Output:\<newline>'')
         (rule50 CHR ''='' @ ''\<newline>''))
       (valgrind_stderr @ ''\<newline>'')"

text \<open>\<open>parse_valgrind_output\<close>: the four sections in the order of the source.\<close>

definition parse_valgrind_output :: "gui \<Rightarrow> string \<Rightarrow> gui" where
  "parse_valgrind_output self valgrind_stderr =
     emit_full_output
       (emit_leak_summary
         (emit_memory_usage
           (emit_verdict self valgrind_stderr)
           valgrind_stderr)
         valgrind_stderr)
       valgrind_stderr"

subsection \<open>Tool detection\<close>

text \<open>
  A probe appends one line to the list \<open>tools_status\<close> its caller owns, so it returns the
  list with the state; \<open>Some e\<close> in the first component is the exception \<open>e\<close> leaving it.
  Each probe catches \<open>FileNotFoundError\<close> and \<open>subprocess.TimeoutExpired\<close> and nothing
  else.
\<close>

type_synonym probe = "world \<Rightarrow> gui \<Rightarrow> string list \<Rightarrow> exn option \<times> gui \<times> string list"

definition check_windows_gcc :: probe where
  "check_windows_gcc w self tools_status =
     (case subprocess_run w self ([''gcc'', ''--version''], True, 5) of
        (Completed rc out err, self) \<Rightarrow>
          (if rc = 0
           then (None, self, tools_status @ [check_mark @ '' GCC compiler available (Windows)''])
           else (None, self, tools_status @ [cross_mark @ '' GCC compiler not found (Windows)'']))
      | (Raised e, self) \<Rightarrow>
          (case e of
             FileNotFoundError m \<Rightarrow>
               (None, self, tools_status @ [cross_mark @ '' GCC compiler not found (Windows)''])
           | TimeoutExpired m \<Rightarrow>
               (None, self, tools_status @ [cross_mark @ '' GCC compiler not found (Windows)''])
           | OtherException m \<Rightarrow> (Some e, self, tools_status)))"

definition check_windows_valgrind :: probe where
  "check_windows_valgrind w self tools_status =
     (case subprocess_run w self ([''valgrind'', ''--version''], True, 5) of
        (Completed rc out err, self) \<Rightarrow>
          (if rc = 0
           then (None, self, tools_status @ [check_mark @ '' Valgrind available (Windows)''])
           else (None, self, tools_status @ [cross_mark @ '' Valgrind not available (Windows)'']))
      | (Raised e, self) \<Rightarrow>
          (case e of
             FileNotFoundError m \<Rightarrow>
               (None, self, tools_status @ [cross_mark @ '' Valgrind not available (Windows)''])
           | TimeoutExpired m \<Rightarrow>
               (None, self, tools_status @ [cross_mark @ '' Valgrind not available (Windows)''])
           | OtherException m \<Rightarrow> (Some e, self, tools_status)))"

definition check_wsl_gcc :: probe where
  "check_wsl_gcc w self tools_status =
     (case subprocess_run w self ([''wsl'', ''gcc'', ''--version''], True, 5) of
        (Completed rc out err, self) \<Rightarrow>
          (if rc = 0
           then (None, self\<lparr>wsl_gcc_available := True\<rparr>,
                 tools_status @ [check_mark @ '' GCC available in WSL''])
           else (None, self, tools_status @ [cross_mark @ '' GCC not installed in WSL'']))
      | (Raised e, self) \<Rightarrow>
          (case e of
             FileNotFoundError m \<Rightarrow>
               (None, self, tools_status @ [cross_mark @ '' GCC not installed in WSL''])
           | TimeoutExpired m \<Rightarrow>
               (None, self, tools_status @ [cross_mark @ '' GCC not installed in WSL''])
           | OtherException m \<Rightarrow> (Some e, self, tools_status)))"

definition check_wsl_valgrind :: probe where
  "check_wsl_valgrind w self tools_status =
     (case subprocess_run w self ([''wsl'', ''valgrind'', ''--version''], True, 5) of
        (Completed rc out err, self) \<Rightarrow>
          (if rc = 0
           then (None, self\<lparr>wsl_valgrind_available := True\<rparr>,
                 tools_status @ [check_mark @ '' Valgrind available in WSL''])
           else (None, self, tools_status @ [cross_mark @ '' Valgrind not installed in WSL'']))
      | (Raised e, self) \<Rightarrow>
          (case e of
             FileNotFoundError m \<Rightarrow>
               (None, self, tools_status @ [cross_mark @ '' Valgrind not installed in WSL''])
           | TimeoutExpired m \<Rightarrow>
               (None, self, tools_status @ [cross_mark @ '' Valgrind not installed in WSL''])
           | OtherException m \<Rightarrow> (Some e, self, tools_status)))"

text \<open>
  The \<open>except\<close> clause of \<open>_check_wsl_tools\<close>. It also guards the two nested probes, which
  run inside its \<open>try\<close>.
\<close>

definition wsl_tools_except :: "exn \<Rightarrow> gui \<Rightarrow> string list \<Rightarrow> exn option \<times> gui \<times> string list" where
  "wsl_tools_except e self tools_status =
     (case e of
        FileNotFoundError m \<Rightarrow> (None, self, tools_status @ [cross_mark @ '' WSL not available''])
      | TimeoutExpired m \<Rightarrow> (None, self, tools_status @ [cross_mark @ '' WSL not available''])
      | OtherException m \<Rightarrow> (Some e, self, tools_status))"

definition check_wsl_tools :: probe where
  "check_wsl_tools w self tools_status =
     (case subprocess_run w self ([''wsl'', ''--status''], True, 5) of
        (Completed rc out err, self) \<Rightarrow>
          (if rc = 0
           then (case check_wsl_gcc w (self\<lparr>wsl_available := True\<rparr>)
                        (tools_status @ [check_mark @ '' WSL available'']) of
                   (Some e, self, tools_status) \<Rightarrow> wsl_tools_except e self tools_status
                 | (None, self, tools_status) \<Rightarrow>
                     (case check_wsl_valgrind w self tools_status of
                        (Some e, self, tools_status) \<Rightarrow> wsl_tools_except e self tools_status
                      | (None, self, tools_status) \<Rightarrow> (None, self, tools_status)))
           else (None, self, tools_status @ [cross_mark @ '' WSL not available'']))
      | (Raised e, self) \<Rightarrow> wsl_tools_except e self tools_status)"

definition display_tool_status :: "gui \<Rightarrow> string list \<Rightarrow> gui" where
  "display_tool_status self tools_status =
     (let self = insert_end self (rule50 CHR ''='' @ ''\<newline>'');
          self = insert_end self ''TOOL STATUS\<newline>'';
          self = insert_end self (rule50 CHR ''='' @ ''\<newline>'');
          self = foldl (\<lambda>self status. insert_end self (status @ ''\<newline>'')) self tools_status;
          self = (if wsl_available self \<and> (\<not> wsl_gcc_available self \<or> \<not> wsl_valgrind_available self)
                  then insert_end
                         (insert_end
                           (insert_end
                             (insert_end
                               (insert_end self (''\<newline>'' @ rule50 CHR ''='' @ ''\<newline>''))
                               (memo_sign @ '' SETUP INSTRUCTIONS\<newline>''))
                             (rule50 CHR ''='' @ ''\<newline>''))
                           ''To install missing tools, open Ubuntu from Start Menu and run:\<newline>\<newline>'')
                         ''  sudo apt update && sudo apt install -y gcc valgrind\<newline>''
                  else self)
      in insert_end self (''\<newline>'' @ rule50 CHR ''='' @ ''\<newline>\<newline>''))"

text \<open>\<open>check_tools\<close>: the three flags are cleared, then the probes run in order.\<close>

definition check_tools :: "world \<Rightarrow> gui \<Rightarrow> exn option \<times> gui" where
  "check_tools w self =
     (case check_windows_gcc w
             (self\<lparr>wsl_available := False, wsl_gcc_available := False,
                   wsl_valgrind_available := False\<rparr>) [] of
        (Some e, self, tools_status) \<Rightarrow> (Some e, self)
      | (None, self, tools_status) \<Rightarrow>
          (case check_windows_valgrind w self tools_status of
             (Some e, self, tools_status) \<Rightarrow> (Some e, self)
           | (None, self, tools_status) \<Rightarrow>
               (case check_wsl_tools w self tools_status of
                  (Some e, self, tools_status) \<Rightarrow> (Some e, self)
                | (None, self, tools_status) \<Rightarrow> (None, display_tool_status self tools_status))))"

subsection \<open>Compilation\<close>

text \<open>\<open>file_path[:-2]\<close>\<close>

definition drop_last2 :: "string \<Rightarrow> string" where
  "drop_last2 s = take (length s - 2) s"

text \<open>
  \<open>_compile_with_wsl_gcc\<close> has no \<open>try\<close>: whatever \<open>subprocess.run\<close> raises leaves it.
\<close>

definition compile_with_wsl_gcc :: "world \<Rightarrow> gui \<Rightarrow> string \<Rightarrow> bool result \<times> gui" where
  "compile_with_wsl_gcc w self file_path =
     (let self = insert_end self ''Using WSL GCC compiler...\<newline>'';
          wsl_path = windows_path_to_wsl file_path;
          exe_name = drop_last2 file_path;
          wsl_exe = drop_last2 wsl_path;
          compile_cmd = [''wsl'', ''gcc'', ''-g'', ''-o'', wsl_exe, wsl_path]
      in case subprocess_run w self (compile_cmd, True, 30) of
           (Completed rc out err, self) \<Rightarrow>
             (if rc = 0
              then (Return True,
                    set_status
                      (set_entry
                        (insert_end
                          (insert_end self (check_mark @ '' Compilation successful!\<newline>''))
                          (''  Executable: '' @ exe_name @ ''\<newline>''))
                        exe_name)
                      ''Compilation successful (WSL)'')
              else (Return False,
                    set_status
                      (insert_end self (cross_mark @ '' Compilation failed:\<newline>'' @ err @ ''\<newline>''))
                      ''Compilation failed''))
         | (Raised e, self) \<Rightarrow> (Raise e, self))"

definition compile_with_windows_gcc :: "world \<Rightarrow> gui \<Rightarrow> string \<Rightarrow> unit result \<times> gui" where
  "compile_with_windows_gcc w self file_path =
     (let self = insert_end self ''Using Windows GCC compiler...\<newline>'';
          exe_name = (if platform_system w = ''Windows''
                      then drop_last2 file_path @ ''.exe''
                      else drop_last2 file_path);
          compile_cmd = [''gcc'', ''-g'', ''-o'', exe_name, file_path]
      in case subprocess_run w self (compile_cmd, True, 30) of
           (Completed rc out err, self) \<Rightarrow>
             (if rc = 0
              then (Return (),
                    set_status
                      (set_entry
                        (insert_end
                          (insert_end self (check_mark @ '' Compilation successful!\<newline>''))
                          (''  Executable: '' @ exe_name @ ''\<newline>''))
                        exe_name)
                      ''Compilation successful'')
              else (Return (),
                    set_status
                      (insert_end self (cross_mark @ '' Compilation failed:\<newline>'' @ err @ ''\<newline>''))
                      ''Compilation failed''))
         | (Raised e, self) \<Rightarrow> (Raise e, self))"

text \<open>The body of the \<open>try\<close> of \<open>compile_c_file\<close>.\<close>

definition compile_try :: "world \<Rightarrow> gui \<Rightarrow> string \<Rightarrow> unit result \<times> gui" where
  "compile_try w self file_path =
     (if wsl_available self \<and> wsl_gcc_available self
      then (case compile_with_wsl_gcc w self file_path of
              (Raise e, self) \<Rightarrow> (Raise e, self)
            | (Return success, self) \<Rightarrow>
                (if success then (Return (), self)
                 else compile_with_windows_gcc w self file_path))
      else compile_with_windows_gcc w self file_path)"

text \<open>The two \<open>except\<close> clauses of \<open>compile_c_file\<close>.\<close>

definition compile_except :: "exn \<Rightarrow> gui \<Rightarrow> gui" where
  "compile_except e self =
     (case e of
        FileNotFoundError m \<Rightarrow>
          (let error_msg = ''GCC compiler not found!\<newline>'' @
                           ''Please install GCC in WSL or MinGW on Windows.''
           in set_status
                (insert_end
                  (messagebox self (ShowError ''Error'' error_msg))
                  (cross_mark @ '' '' @ error_msg @ ''\<newline>''))
                ''GCC not found'')
      | _ \<Rightarrow>
          set_status
            (insert_end
              (messagebox self (ShowError ''Error'' (''Compilation error: '' @ str_exn e)))
              (cross_mark @ '' Unexpected error: '' @ str_exn e @ ''\<newline>''))
            ''Compilation error'')"

definition compile_c_file :: "world \<Rightarrow> gui \<Rightarrow> gui" where
  "compile_c_file w self =
     (let file_path = strip (process_entry self)
      in if file_path = []
         then messagebox self (ShowError ''Error'' ''Please select a C source file!'')
         else if \<not> endswith file_path ''.c''
         then messagebox self (ShowInfo ''Info'' ''Selected file is not a C source file (.c)'')
         else if \<not> path_exists w file_path
         then messagebox self (ShowError ''Error'' (''File not found: '' @ file_path))
         else
           (let self = set_status self ''Compiling...'';
                self = insert_end self (''\<newline>'' @ rule50 CHR ''='' @ ''\<newline>'');
                self = insert_end self (''COMPILING: '' @ basename w file_path @ ''\<newline>'');
                self = insert_end self (rule50 CHR ''='' @ ''\<newline>'')
            in case compile_try w self file_path of
                 (Return u, self) \<Rightarrow> self
               | (Raise e, self) \<Rightarrow> compile_except e self))"

subsection \<open>Memory analysis\<close>

text \<open>
  \<open>_run_wsl_valgrind\<close> and \<open>_run_native_valgrind\<close> end in \<open>except Exception\<close>, so they
  always return a Boolean. The return code of the checker is not read.
\<close>

definition run_wsl_valgrind :: "world \<Rightarrow> gui \<Rightarrow> string \<Rightarrow> bool \<times> gui" where
  "run_wsl_valgrind w self executable_path =
     (let self = insert_end self ''Running Valgrind memory check (WSL)...\<newline>'';
          wsl_path = windows_path_to_wsl executable_path;
          valgrind_cmd = [''wsl'', ''valgrind'', ''--leak-check=full'', ''--track-origins=yes'',
                          ''--show-leak-kinds=all'', wsl_path]
      in case subprocess_run w self (valgrind_cmd, True, 30) of
           (Completed rc out err, self) \<Rightarrow>
             (True, set_status (parse_valgrind_output self err) ''Valgrind analysis complete (WSL)'')
         | (Raised e, self) \<Rightarrow>
             (case e of
                TimeoutExpired m \<Rightarrow>
                  (False,
                   insert_end
                     (insert_end self
                        (warning_sign @ '' Valgrind execution timed out (30 seconds)\<newline>''))
                     ''The program may be hanging or taking too long.\<newline>'')
              | _ \<Rightarrow>
                  (False,
                   insert_end self (cross_mark @ '' WSL Valgrind error: '' @ str_exn e @ ''\<newline>''))))"

definition run_native_valgrind :: "world \<Rightarrow> gui \<Rightarrow> string \<Rightarrow> bool \<times> gui" where
  "run_native_valgrind w self executable_path =
     (let self = insert_end self ''Trying native Valgrind...\<newline>'';
          valgrind_cmd = [''valgrind'', ''--leak-check=full'', ''--track-origins=yes'',
                          executable_path]
      in case subprocess_run w self (valgrind_cmd, False, 30) of
           (Completed rc out err, self) \<Rightarrow>
             (True, set_status (parse_valgrind_output self err) ''Valgrind analysis complete'')
         | (Raised e, self) \<Rightarrow>
             (case e of
                FileNotFoundError m \<Rightarrow>
                  (False,
                   insert_end
                     (insert_end
                       (insert_end self (warning_sign @ '' Valgrind not available.\<newline>''))
                       ''Install Valgrind in WSL for memory leak detection.\<newline>'')
                     ''Falling back to basic analysis...\<newline>\<newline>'')
              | TimeoutExpired m \<Rightarrow>
                  (False, insert_end self (warning_sign @ '' Valgrind execution timed out\<newline>''))
              | OtherException m \<Rightarrow> (False, self)))"

definition try_valgrind :: "world \<Rightarrow> gui \<Rightarrow> string \<Rightarrow> bool \<times> gui" where
  "try_valgrind w self executable_path =
     (if wsl_available self \<and> wsl_valgrind_available self
      then run_wsl_valgrind w self executable_path
      else run_native_valgrind w self executable_path)"

definition basic_analysis :: "world \<Rightarrow> gui \<Rightarrow> string \<Rightarrow> gui" where
  "basic_analysis w self executable_path =
     (let self = insert_end self (''\<newline>'' @ rule50 CHR ''-'' @ ''\<newline>'');
          self = insert_end self ''Running basic execution (no memory leak detection)...\<newline>'';
          self = insert_end self (rule50 CHR ''-'' @ ''\<newline>'')
      in case subprocess_run w self ([executable_path], False, 10) of
           (Completed rc out err, self) \<Rightarrow>
             (let self = insert_end self (''\<newline>Exit code: '' @ string_of_int rc);
                  self = (if rc = 0 then insert_end self '' (Success)\<newline>''
                          else insert_end self '' (Error)\<newline>'');
                  self = (if out \<noteq> []
                          then insert_end self (''\<newline>Program output:\<newline>'' @ out @ ''\<newline>'')
                          else self);
                  self = (if err \<noteq> []
                          then insert_end self (''\<newline>Program errors:\<newline>'' @ err @ ''\<newline>'')
                          else self);
                  self = insert_end self (''\<newline>'' @ rule50 CHR ''!'' @ ''\<newline>'');
                  self = insert_end self
                           (warning_sign @ '' NOTE: Memory leak detection requires Valgrind!\<newline>'');
                  self = insert_end self ''Install WSL and Valgrind for full memory analysis.\<newline>'';
                  self = insert_end self (rule50 CHR ''!'' @ ''\<newline>'')
              in set_status self ''Basic analysis complete (no leak detection)'')
         | (Raised e, self) \<Rightarrow>
             (case e of
                TimeoutExpired m \<Rightarrow>
                  set_status
                    (insert_end
                      (insert_end self
                         (''\<newline>'' @ warning_sign @ '' Program execution timed out (10 seconds)\<newline>''))
                      ''The program may be hanging or waiting for input.\<newline>'')
                    ''Execution timed out''
              | _ \<Rightarrow>
                  set_status
                    (insert_end self (''\<newline>'' @ cross_mark @ '' Execution error: '' @ str_exn e @ ''\<newline>''))
                    ''Execution error''))"

text \<open>
  \<open>analyze_memory\<close>. Nothing in its \<open>try\<close> raises (the three callees catch every
  exception), so its own \<open>except\<close> clause has no case here.
\<close>

definition analyze_memory :: "world \<Rightarrow> gui \<Rightarrow> gui" where
  "analyze_memory w self =
     (let executable_path = strip (process_entry self)
      in if executable_path = []
         then messagebox self (ShowError ''Error'' ''Please select an executable file!'')
         else if \<not> path_exists w executable_path
         then messagebox self (ShowError ''Error'' (''File not found: '' @ executable_path))
         else
           (let self = set_status self ''Analyzing memory...'';
                self = insert_end self (''\<newline>'' @ rule50 CHR ''='' @ ''\<newline>'');
                self = insert_end self (''MEMORY ANALYSIS: '' @ basename w executable_path @ ''\<newline>'');
                self = insert_end self (rule50 CHR ''='' @ ''\<newline>'')
            in case try_valgrind w self executable_path of
                 (True, self) \<Rightarrow> self
               | (False, self) \<Rightarrow> basic_analysis w self executable_path))"

subsection \<open>Outcomes of a probe\<close>

text \<open>
  The three ways a version query fails: a non-zero exit status, no such executable
  (\<open>FileNotFoundError\<close>), the timeout. And the one way it succeeds: the process ran and
  its exit status is zero.
\<close>

fun probe_fails :: "run_result \<Rightarrow> bool" where
  "probe_fails (Completed rc out err) = (rc \<noteq> 0)"
| "probe_fails (Raised (FileNotFoundError m)) = True"
| "probe_fails (Raised (TimeoutExpired m)) = True"
| "probe_fails (Raised (OtherException m)) = False"

fun probe_succeeds :: "run_result \<Rightarrow> bool" where
  "probe_succeeds (Completed rc out err) = (rc = 0)"
| "probe_succeeds (Raised e) = False"

subsection \<open>Concrete states and worlds\<close>

text \<open>The state \<open>__init__\<close> builds before its first probe: no flag set, status "Ready".\<close>

definition initial_gui :: gui where
  "initial_gui =
     \<lparr>wsl_available = False, wsl_gcc_available = False, wsl_valgrind_available = False,
      process_entry = [], status_var = ''Ready'', text_area = [], dialogs = [], spawned = []\<rparr>"

text \<open>The same with WSL and its tools found, and a path typed into the entry.\<close>

definition wsl_gui :: "string \<Rightarrow> gui" where
  "wsl_gui path =
     initial_gui\<lparr>wsl_available := True, wsl_gcc_available := True,
                 wsl_valgrind_available := True, process_entry := path\<rparr>"

text \<open>
  A Windows machine on which the listed invocations answer as given and every other
  executable is missing, and on which exactly the listed files exist.
\<close>

definition test_world :: "(invocation \<times> run_result) list \<Rightarrow> string list \<Rightarrow> world" where
  "test_world answers files =
     \<lparr>run = (\<lambda>call. case map_of answers call of
                       Some r \<Rightarrow> r
                     | None \<Rightarrow> Raised (FileNotFoundError ''The system cannot find the file specified'')),
      path_exists = (\<lambda>p. p \<in> set files),
      basename = (\<lambda>p. p),
      platform_system = ''Windows''\<rparr>"

section \<open>Properties\<close>

subsection \<open>Strings\<close>

text \<open>The two tests on strings mean what their names say.\<close>

lemma starts_with_iff: "starts_with p s \<longleftrightarrow> (\<exists>t. s = p @ t)"
  by (induction p s rule: starts_with.induct) auto

lemma str_contains_iff: "str_contains sub s \<longleftrightarrow> (\<exists>a b. s = a @ sub @ b)"
proof (induction s)
  case Nil
  then show ?case by auto
next
  case (Cons c cs)
  show ?case
  proof
    assume "str_contains sub (c # cs)"
    then consider "starts_with sub (c # cs)" | "str_contains sub cs" by auto
    then show "\<exists>a b. c # cs = a @ sub @ b"
    proof cases
      case 1
      then obtain t where "c # cs = sub @ t" by (auto simp: starts_with_iff)
      then have "c # cs = [] @ sub @ t" by simp
      then show ?thesis by blast
    next
      case 2
      then obtain a b where "cs = a @ sub @ b" using Cons.IH by auto
      then have "c # cs = (c # a) @ sub @ b" by simp
      then show ?thesis by blast
    qed
  next
    assume "\<exists>a b. c # cs = a @ sub @ b"
    then obtain a b where ab: "c # cs = a @ sub @ b" by auto
    show "str_contains sub (c # cs)"
    proof (cases a)
      case Nil
      then have "starts_with sub (c # cs)" using ab by (auto simp: starts_with_iff)
      then show ?thesis by simp
    next
      case (Cons x a')
      then have "cs = a' @ sub @ b" using ab by simp
      then have "str_contains sub cs" using Cons.IH by auto
      then show ?thesis by simp
    qed
  qed
qed

subsection \<open>What each section of the parser writes\<close>

text \<open>Each section only appends to the text widget; nothing else of the state changes.\<close>

lemma emit_verdict_eq:
  "emit_verdict self s =
     self\<lparr>text_area := text_area self @ [if str_contains no_leak_phrase s then no_leak_result else leak_result]\<rparr>"
  by (simp add: emit_verdict_def insert_end_def)

lemma emit_memory_usage_eq:
  "emit_memory_usage self s =
     self\<lparr>text_area := text_area self @
        (case re_search ''total heap usage: '' '' bytes allocated'' s of
           Some g \<Rightarrow> [''Memory usage: '' @ g @ ''\<newline>''] | None \<Rightarrow> [])\<rparr>"
  by (simp add: emit_memory_usage_def insert_end_def split: option.splits)

lemma emit_leak_lines_eq:
  "emit_leak_lines self s ps =
     self\<lparr>text_area := text_area self @
        concat (map (\<lambda>(pattern, label).
                       case re_search (fst pattern) (snd pattern) s of
                         Some g \<Rightarrow> [leak_line label g] | None \<Rightarrow> []) ps)\<rparr>"
proof (induction ps arbitrary: self)
  case Nil
  show ?case by simp
next
  case (Cons p ps)
  obtain pattern label where p: "p = (pattern, label)" by (cases p)
  show ?case
    by (cases "re_search (fst pattern) (snd pattern) s")
       (simp_all add: p Cons.IH insert_end_def)
qed

lemma emit_leak_summary_eq:
  "emit_leak_summary self s =
     self\<lparr>text_area := text_area self @
       (if str_contains ''LEAK SUMMARY'' s
        then table_header @
             concat (map (\<lambda>(pattern, label).
                       case re_search (fst pattern) (snd pattern) s of
                         Some g \<Rightarrow> [leak_line label g] | None \<Rightarrow> []) leak_patterns)
        else [])\<rparr>"
  by (simp add: emit_leak_summary_def emit_leak_lines_eq insert_end_def table_header_def)

lemma emit_full_output_eq:
  "emit_full_output self s =
     self\<lparr>text_area := text_area self @
       [''\<newline>'' @ rule50 CHR ''='' @ ''\<newline>'', ''Full Valgrind Output:\<newline>'',
        rule50 CHR ''='' @ ''\<newline>'', s @ ''\<newline>'']\<rparr>"
  by (simp add: emit_full_output_def insert_end_def)

lemma results_differ: "no_leak_result \<noteq> leak_result"
  by (simp add: no_leak_result_def leak_result_def check_mark_def warning_sign_def)

subsection \<open>The verdict\<close>

text \<open>
  Claim C1. For every raw text, the first chunk \<open>parse_valgrind_output\<close> writes is the
  no-leak result if and only if the text contains the phrase "All heap blocks were freed
  -- no leaks are possible", whatever surrounds it; it is the leak-detected result if
  and only if the text lacks the phrase. The two results are different texts.
\<close>

theorem verdict_iff_phrase:
  "(hd (emitted self (parse_valgrind_output self s)) = no_leak_result
      \<longleftrightarrow> (\<exists>a b. s = a @ no_leak_phrase @ b)) \<and>
   (hd (emitted self (parse_valgrind_output self s)) = leak_result
      \<longleftrightarrow> \<not> (\<exists>a b. s = a @ no_leak_phrase @ b))"
  using results_differ
  by (simp add: parse_valgrind_output_def emitted_def emit_full_output_eq emit_leak_summary_eq
      emit_memory_usage_eq emit_verdict_eq str_contains_iff [symmetric])

text \<open>C1 at two texts: one with the phrase between other content, one without it.\<close>

theorem verdict_iff_phrase_witness:
  "hd (emitted initial_gui (parse_valgrind_output initial_gui
         (''==1== '' @ no_leak_phrase @ ''\<newline>''))) = no_leak_result \<and>
   hd (emitted initial_gui (parse_valgrind_output initial_gui
         ''==1== definitely lost: 40 bytes in 2 blocks'')) = leak_result"
proof -
  have yes: "\<exists>a b. ''==1== '' @ no_leak_phrase @ ''\<newline>'' = a @ no_leak_phrase @ b"
    by blast
  have "\<not> str_contains no_leak_phrase ''==1== definitely lost: 40 bytes in 2 blocks''"
    by (simp add: no_leak_phrase_def)
  then have no: "\<not> (\<exists>a b. ''==1== definitely lost: 40 bytes in 2 blocks'' = a @ no_leak_phrase @ b)"
    using str_contains_iff by blast
  show ?thesis
    using verdict_iff_phrase [of initial_gui "''==1== '' @ no_leak_phrase @ ''\<newline>''"]
      verdict_iff_phrase [of initial_gui "''==1== definitely lost: 40 bytes in 2 blocks''"]
      yes no
    by blast
qed

subsection \<open>The parser reads nothing but the text\<close>

lemma parse_appends:
  "\<exists>chunks. \<forall>self. parse_valgrind_output self s = self\<lparr>text_area := text_area self @ chunks\<rparr>"
  by (rule exI [where x = "text_area (parse_valgrind_output initial_gui s)"])
     (simp add: parse_valgrind_output_def emit_full_output_eq emit_leak_summary_eq
        emit_memory_usage_eq emit_verdict_eq initial_gui_def)

text \<open>
  Claim C8. \<open>parse_valgrind_output\<close> is a function of the raw text alone: run on the same
  text from any two states, and again on its own result, it writes the same chunks
  (verdict, memory usage, leak summary, full output), and it changes nothing of the state
  but the text widget, to which it appends them.
\<close>

theorem parse_twice_same_fields:
  "emitted self1 (parse_valgrind_output self1 s) = emitted self2 (parse_valgrind_output self2 s) \<and>
   emitted (parse_valgrind_output self1 s) (parse_valgrind_output (parse_valgrind_output self1 s) s)
     = emitted self1 (parse_valgrind_output self1 s) \<and>
   parse_valgrind_output self1 s =
     self1\<lparr>text_area := text_area self1 @ emitted self1 (parse_valgrind_output self1 s)\<rparr>"
proof -
  obtain chunks where
    c: "\<And>self. parse_valgrind_output self s = self\<lparr>text_area := text_area self @ chunks\<rparr>"
    using parse_appends by blast
  have e: "\<And>self. emitted self (parse_valgrind_output self s) = chunks"
    by (simp add: c emitted_def)
  show ?thesis
    unfolding e using c [of self1] by blast
qed

subsection \<open>The leak summary\<close>

text \<open>
  Claim C2 as stated fails: the text that is just the header "LEAK SUMMARY" contains the
  header, the table heading is written, and no category line is, because no pattern
  matches. The whole output of the parser on that text:
\<close>

theorem leak_fields_iff_header_counterexample:
  "str_contains ''LEAK SUMMARY'' ''LEAK SUMMARY'' \<and>
   text_area (parse_valgrind_output initial_gui ''LEAK SUMMARY'') =
     [leak_result,
      ''\<newline>'' @ rule50 CHR ''-'' @ ''\<newline>'', ''Leak Summary:\<newline>'', rule50 CHR ''-'' @ ''\<newline>'',
      ''\<newline>'' @ rule50 CHR ''='' @ ''\<newline>'', ''Full Valgrind Output:\<newline>'',
      rule50 CHR ''='' @ ''\<newline>'', ''LEAK SUMMARY\<newline>'']"
  by (simp add: parse_valgrind_output_def emit_full_output_eq emit_leak_summary_eq
        emit_memory_usage_eq emit_verdict_eq initial_gui_def no_leak_phrase_def
        table_header_def leak_patterns_def match_at_def)

text \<open>
  Claim C2, amended. The table section is written if and only if "LEAK SUMMARY" occurs
  in the text. When it occurs, the section is the three heading chunks followed, in the
  order of the five categories, by the line of each category whose own pattern (the
  label, a colon, anything on the same line, then " blocks") matches the text; a
  category whose pattern does not match has no line. When the header does not occur,
  nothing stands between the memory usage and the full output.
\<close>

theorem leak_summary_section:
  "text_area (parse_valgrind_output self s) =
     text_area (emit_memory_usage (emit_verdict self s) s) @
     (if (\<exists>a b. s = a @ ''LEAK SUMMARY'' @ b)
      then table_header @
           concat (map (\<lambda>(pattern, label).
                          case re_search (fst pattern) (snd pattern) s of
                            Some g \<Rightarrow> [leak_line label g]
                          | None \<Rightarrow> [])
                       leak_patterns)
      else []) @
     [''\<newline>'' @ rule50 CHR ''='' @ ''\<newline>'', ''Full Valgrind Output:\<newline>'',
      rule50 CHR ''='' @ ''\<newline>'', s @ ''\<newline>'']"
proof -
  have hdr: "(\<exists>a b. s = a @ ''LEAK SUMMARY'' @ b) = str_contains ''LEAK SUMMARY'' s"
    by (rule str_contains_iff [symmetric])
  show ?thesis
    unfolding hdr
    by (simp add: parse_valgrind_output_def emit_full_output_eq emit_leak_summary_eq)
qed

text \<open>
  C2 at the text of the specification's scenario: under the header, the line
  "definitely lost: 40 bytes in 2 blocks" gives "Definitely lost: 40 bytes in 2 blocks".
\<close>

theorem leak_summary_section_witness:
  "text_area (parse_valgrind_output initial_gui
      ''LEAK SUMMARY:\<newline>   definitely lost: 40 bytes in 2 blocks\<newline>'') =
     [leak_result,
      ''\<newline>'' @ rule50 CHR ''-'' @ ''\<newline>'', ''Leak Summary:\<newline>'', rule50 CHR ''-'' @ ''\<newline>'',
      ''  Definitely lost: 40 bytes in 2 blocks\<newline>'',
      ''\<newline>'' @ rule50 CHR ''='' @ ''\<newline>'', ''Full Valgrind Output:\<newline>'',
      rule50 CHR ''='' @ ''\<newline>'',
      ''LEAK SUMMARY:\<newline>   definitely lost: 40 bytes in 2 blocks\<newline>\<newline>'']"
proof -
  have hdr: "\<exists>a b. ''LEAK SUMMARY:\<newline>   definitely lost: 40 bytes in 2 blocks\<newline>''
               = a @ ''LEAK SUMMARY'' @ b"
    using str_contains_iff [of "''LEAK SUMMARY''"
        "''LEAK SUMMARY:\<newline>   definitely lost: 40 bytes in 2 blocks\<newline>''"]
    by simp
  show ?thesis
    using leak_summary_section [of initial_gui
        "''LEAK SUMMARY:\<newline>   definitely lost: 40 bytes in 2 blocks\<newline>''"] hdr
    by (simp add: emit_memory_usage_eq emit_verdict_eq initial_gui_def no_leak_phrase_def
        table_header_def leak_patterns_def match_at_def leak_line_def second_field_def
        strip_def is_space_def)
qed

subsection \<open>Path translation\<close>

text \<open>
  Claim C3 as stated fails for a path with a drive letter and a colon that is not
  followed by a separator: the drive-relative path "C:foo" becomes "/mnt/cfoo", which
  does not begin with "/mnt/c/".
\<close>

theorem drive_prefix_counterexample:
  "windows_path_to_wsl ''C:foo'' = ''/mnt/cfoo'' \<and>
   \<not> starts_with ''/mnt/c/'' (windows_path_to_wsl ''C:foo'')"
  by (simp add: windows_path_to_wsl_def replace_char_def lower_char_def)

lemma letter_not_backslash: "d \<in> set ascii_letters \<Longrightarrow> d \<noteq> CHR 0x5C"
  by (auto simp: ascii_letters_def)

lemma lower_letter: "d \<in> set ascii_letters \<Longrightarrow> lower_char d \<in> set ''abcdefghijklmnopqrstuvwxyz''"
  by (auto simp: ascii_letters_def lower_char_def)

lemma no_backslash_replace: "CHR 0x5C \<notin> set (replace_char (CHR 0x5C) CHR ''/'' s)"
  by (auto simp: replace_char_def)

text \<open>
  Claim C3, amended. For every path that begins with a drive letter, a colon and a
  separator (backslash or slash), the translation is "/mnt/", the lowercased drive
  letter, "/", and the rest of the path with every backslash replaced by a slash; no
  backslash is left in it.
\<close>

theorem drive_path_translation:
  "d \<in> set ascii_letters \<and> (sep = CHR 0x5C \<or> sep = CHR ''/'') \<longrightarrow>
     windows_path_to_wsl (d # CHR '':'' # sep # rest) =
       ''/mnt/'' @ [lower_char d] @ ''/'' @ replace_char (CHR 0x5C) CHR ''/'' rest \<and>
     lower_char d \<in> set ''abcdefghijklmnopqrstuvwxyz'' \<and>
     CHR 0x5C \<notin> set (windows_path_to_wsl (d # CHR '':'' # sep # rest))"
proof (intro impI)
  assume a: "d \<in> set ascii_letters \<and> (sep = CHR 0x5C \<or> sep = CHR ''/'')"
  then have d: "d \<noteq> CHR 0x5C" using letter_not_backslash by blast
  have low: "lower_char d \<in> set ''abcdefghijklmnopqrstuvwxyz''" using a lower_letter by blast
  have eq: "windows_path_to_wsl (d # CHR '':'' # sep # rest) =
       ''/mnt/'' @ [lower_char d] @ ''/'' @ replace_char (CHR 0x5C) CHR ''/'' rest"
    using a d by (auto simp: windows_path_to_wsl_def replace_char_def)
  have "CHR 0x5C \<notin> set (replace_char (CHR 0x5C) CHR ''/'' rest)" by (rule no_backslash_replace)
  moreover have "lower_char d \<noteq> CHR 0x5C" using low by auto
  ultimately have "CHR 0x5C \<notin> set (windows_path_to_wsl (d # CHR '':'' # sep # rest))"
    unfolding eq by simp
  with eq low show "windows_path_to_wsl (d # CHR '':'' # sep # rest) =
       ''/mnt/'' @ [lower_char d] @ ''/'' @ replace_char (CHR 0x5C) CHR ''/'' rest \<and>
     lower_char d \<in> set ''abcdefghijklmnopqrstuvwxyz'' \<and>
     CHR 0x5C \<notin> set (windows_path_to_wsl (d # CHR '':'' # sep # rest))" by blast
qed

text \<open>
  C3 at the two paths of the specification: drive C, directory a, file b.c; and drive D,
  file x.c; both written with backslashes.
\<close>

theorem drive_path_translation_witness:
  "windows_path_to_wsl [CHR ''C'', CHR '':'', CHR 0x5C, CHR ''a'', CHR 0x5C, CHR ''b'', CHR ''.'', CHR ''c'']
     = ''/mnt/c/a/b.c'' \<and>
   windows_path_to_wsl [CHR ''D'', CHR '':'', CHR 0x5C, CHR ''x'', CHR ''.'', CHR ''c'']
     = ''/mnt/d/x.c''"
  using drive_path_translation [of "CHR ''C''" "CHR 0x5C" "[CHR ''a'', CHR 0x5C, CHR ''b'', CHR ''.'', CHR ''c'']"]
    drive_path_translation [of "CHR ''D''" "CHR 0x5C" "[CHR ''x'', CHR ''.'', CHR ''c'']"]
  by (simp add: ascii_letters_def replace_char_def lower_char_def)

end
